theory Spec2Isabelle
  imports Main "HOL-Library.Word"
begin

unbundle bit_operations_syntax

section \<open>Type descriptions\<close>

text \<open>
  The rule reads four things of a TypeScript type object: the bit mask \<open>flags\<close>, the name
  of its symbol (\<open>type.getSymbol()\<close>, absent for intrinsic types), \<open>intrinsicName\<close>
  (present on intrinsic types such as \<open>true\<close> and \<open>false\<close>) and, on a union, the ordered
  member list \<open>types\<close>.  A literal type also carries the literal's \<open>value\<close>; the rule never
  reads it, the field is here so that the empty-string and the zero literal types can be
  written down.
\<close>

datatype literal = StringValue string | NumberValue int

datatype tstype =
  Type (flags: "32 word") (symbolName: "string option") (intrinsicName: "string option")
       (litValue: "literal option") (types: "tstype list")

text \<open>
  The members of \<open>ts.TypeFlags\<close> that the rule names, with the values of the TypeScript
  compiler's enum.  JavaScript's \<open>&\<close> and \<open>|\<close> work on 32-bit integers.
\<close>

definition TypeFlags_Any :: "32 word" where "TypeFlags_Any = 1"
definition TypeFlags_String :: "32 word" where "TypeFlags_String = 4"
definition TypeFlags_Number :: "32 word" where "TypeFlags_Number = 8"
definition TypeFlags_Boolean :: "32 word" where "TypeFlags_Boolean = 16"
definition TypeFlags_Enum :: "32 word" where "TypeFlags_Enum = 32"
definition TypeFlags_StringLiteral :: "32 word" where "TypeFlags_StringLiteral = 128"
definition TypeFlags_NumberLiteral :: "32 word" where "TypeFlags_NumberLiteral = 256"
definition TypeFlags_BooleanLiteral :: "32 word" where "TypeFlags_BooleanLiteral = 512"
definition TypeFlags_EnumLiteral :: "32 word" where "TypeFlags_EnumLiteral = 1024"
definition TypeFlags_Void :: "32 word" where "TypeFlags_Void = 16384"
definition TypeFlags_Undefined :: "32 word" where "TypeFlags_Undefined = 32768"
definition TypeFlags_Null :: "32 word" where "TypeFlags_Null = 65536"
definition TypeFlags_Object :: "32 word" where "TypeFlags_Object = 524288"
definition TypeFlags_Union :: "32 word" where "TypeFlags_Union = 1048576"
definition TypeFlags_TemplateLiteral :: "32 word" where "TypeFlags_TemplateLiteral = 134217728"
definition TypeFlags_StringMapping :: "32 word" where "TypeFlags_StringMapping = 268435456"

definition TypeFlags_StringLike :: "32 word" where
  "TypeFlags_StringLike =
     TypeFlags_String OR TypeFlags_StringLiteral OR TypeFlags_TemplateLiteral OR TypeFlags_StringMapping"

definition TypeFlags_NumberLike :: "32 word" where
  "TypeFlags_NumberLike = TypeFlags_Number OR TypeFlags_NumberLiteral OR TypeFlags_Enum"

definition TypeFlags_EnumLike :: "32 word" where
  "TypeFlags_EnumLike = TypeFlags_Enum OR TypeFlags_EnumLiteral"

text \<open>\<open>isTypeFlagSet(obj, flag)\<close>: \<open>(obj.flags & flag) !== 0\<close>.\<close>

definition isTypeFlagSet :: "tstype \<Rightarrow> 32 word \<Rightarrow> bool" where
  "isTypeFlagSet obj flag = (flags obj AND flag \<noteq> 0)"

text \<open>\<open>isUnionType\<close>: the union flag is set and the enum flag is not.\<close>

definition isUnionType :: "tstype \<Rightarrow> bool" where
  "isUnionType type = (isTypeFlagSet type TypeFlags_Union \<and> \<not> isTypeFlagSet type TypeFlags_Enum)"

section \<open>Kinds, failures and options\<close>

text \<open>The constant enum \<open>TypeKind\<close>, in the order of its values 0 to 10.\<close>

datatype TypeKind =
    Kind_String | Kind_FalseStringLiteral | Kind_Number | Kind_FalseNumberLiteral
  | Kind_Boolean | Kind_FalseBooleanLiteral | Kind_Null | Kind_Undefined | Kind_Enum
  | Kind_AlwaysTruthy | Kind_Promise

text \<open>The constant enum \<open>TypeFailure\<close>, in the order of its values 0 to 8.\<close>

datatype TypeFailure =
    AlwaysTruthy | AlwaysFalsy | Fail_String | Fail_Number | Fail_Null | Fail_Undefined
  | Fail_Enum | Mixes | Fail_Promise

record options =
  strictNullChecks :: bool
  allowNullUnion :: bool
  allowUndefinedUnion :: bool
  allowString :: bool
  allowEnum :: bool
  allowNumber :: bool
  allowMix :: bool
  allowBooleanOrUndefined :: bool
  allowAnyRhs :: bool

definition OPTION_ALLOW_NULL_UNION :: string where
  "OPTION_ALLOW_NULL_UNION = ''allow-null-union''"
definition OPTION_ALLOW_UNDEFINED_UNION :: string where
  "OPTION_ALLOW_UNDEFINED_UNION = ''allow-undefined-union''"
definition OPTION_ALLOW_STRING :: string where
  "OPTION_ALLOW_STRING = ''allow-string''"
definition OPTION_ALLOW_ENUM :: string where
  "OPTION_ALLOW_ENUM = ''allow-enum''"
definition OPTION_ALLOW_NUMBER :: string where
  "OPTION_ALLOW_NUMBER = ''allow-number''"
definition OPTION_ALLOW_MIX :: string where
  "OPTION_ALLOW_MIX = ''allow-mix''"
definition OPTION_ALLOW_BOOLEAN_OR_UNDEFINED :: string where
  "OPTION_ALLOW_BOOLEAN_OR_UNDEFINED = ''allow-boolean-or-undefined''"
definition OPTION_ALLOW_ANY_RHS :: string where
  "OPTION_ALLOW_ANY_RHS = ''allow-any-rhs''"

text \<open>\<open>parseOptions\<close>; its inner \<open>has(name)\<close> is \<open>ruleArguments.indexOf(name) !== -1\<close>.\<close>

definition has :: "string list \<Rightarrow> string \<Rightarrow> bool" where
  "has ruleArguments name = (name \<in> set ruleArguments)"

definition parseOptions :: "string list \<Rightarrow> bool \<Rightarrow> options" where
  "parseOptions ruleArguments snc =
     \<lparr> strictNullChecks = snc,
       allowNullUnion = has ruleArguments OPTION_ALLOW_NULL_UNION,
       allowUndefinedUnion = has ruleArguments OPTION_ALLOW_UNDEFINED_UNION,
       allowString = has ruleArguments OPTION_ALLOW_STRING,
       allowEnum = has ruleArguments OPTION_ALLOW_ENUM,
       allowNumber = has ruleArguments OPTION_ALLOW_NUMBER,
       allowMix = has ruleArguments OPTION_ALLOW_MIX,
       allowBooleanOrUndefined = has ruleArguments OPTION_ALLOW_BOOLEAN_OR_UNDEFINED,
       allowAnyRhs = has ruleArguments OPTION_ALLOW_ANY_RHS \<rparr>"

section \<open>The type classifier and the failure determiner\<close>

text \<open>
  \<open>getKind\<close>: a chain of conditionals, first match wins.  Its inner \<open>isObject(name)\<close> is
  \<open>symbol && symbol.getName() === name\<close>, truthy exactly when the type has a symbol of
  that name.
\<close>

definition isObject :: "tstype \<Rightarrow> string \<Rightarrow> bool" where
  "isObject type name = (case symbolName type of None \<Rightarrow> False | Some n \<Rightarrow> n = name)"

definition getKind :: "tstype \<Rightarrow> TypeKind" where
  "getKind type =
     (if isTypeFlagSet type TypeFlags_StringLike then Kind_String
      else if isTypeFlagSet type TypeFlags_NumberLike then Kind_Number
      else if isTypeFlagSet type TypeFlags_Boolean then Kind_Boolean
      else if isObject type ''Promise'' then Kind_Promise
      else if isTypeFlagSet type TypeFlags_Null then Kind_Null
      else if isTypeFlagSet type (TypeFlags_Undefined OR TypeFlags_Void) then Kind_Undefined
      else if isTypeFlagSet type TypeFlags_EnumLike then Kind_Enum
      else if isTypeFlagSet type TypeFlags_BooleanLiteral then
        (if intrinsicName type = Some ''true'' then Kind_AlwaysTruthy else Kind_FalseBooleanLiteral)
      else Kind_AlwaysTruthy)"

text \<open>\<open>failureForKind\<close>: fails if a kind of falsiness is not allowed.\<close>

fun failureForKind :: "TypeKind \<Rightarrow> bool \<Rightarrow> options \<Rightarrow> TypeFailure option" where
  "failureForKind Kind_String isInUnion opts = (if allowString opts then None else Some Fail_String)"
| "failureForKind Kind_FalseStringLiteral isInUnion opts =
     (if allowString opts then None else Some Fail_String)"
| "failureForKind Kind_Number isInUnion opts = (if allowNumber opts then None else Some Fail_Number)"
| "failureForKind Kind_FalseNumberLiteral isInUnion opts =
     (if allowNumber opts then None else Some Fail_Number)"
| "failureForKind Kind_Enum isInUnion opts = (if allowEnum opts then None else Some Fail_Enum)"
| "failureForKind Kind_Promise isInUnion opts = Some Fail_Promise"
| "failureForKind Kind_Null isInUnion opts =
     (if isInUnion \<and> \<not> allowNullUnion opts then Some Fail_Null else None)"
| "failureForKind Kind_Undefined isInUnion opts =
     (if isInUnion \<and> \<not> allowUndefinedUnion opts then Some Fail_Undefined else None)"
| "failureForKind _ isInUnion opts = None"

text \<open>
  \<open>triState\<close>: always true, always false, or unknown (\<open>undefined\<close>, here \<open>None\<close>).
\<close>

fun triState :: "TypeKind \<Rightarrow> bool option" where
  "triState Kind_String = None"
| "triState Kind_Number = None"
| "triState Kind_Boolean = None"
| "triState Kind_Enum = None"
| "triState Kind_Null = Some False"
| "triState Kind_Undefined = Some False"
| "triState Kind_FalseNumberLiteral = Some False"
| "triState Kind_FalseStringLiteral = Some False"
| "triState Kind_FalseBooleanLiteral = Some False"
| "triState Kind_AlwaysTruthy = Some True"
| "triState Kind_Promise = Some True"

text \<open>
  \<open>isBooleanUndefined\<close>: the loop over the members with its local \<open>isTruthy\<close>; the early
  \<open>return undefined\<close> is \<open>None\<close>.
\<close>

fun isBooleanUndefined_loop :: "bool \<Rightarrow> tstype list \<Rightarrow> bool option" where
  "isBooleanUndefined_loop isTruthy [] = Some isTruthy"
| "isBooleanUndefined_loop isTruthy (ty # tys) =
     (if isTypeFlagSet ty TypeFlags_Boolean then isBooleanUndefined_loop True tys
      else if isTypeFlagSet ty TypeFlags_BooleanLiteral then
        isBooleanUndefined_loop (isTruthy \<or> intrinsicName ty = Some ''true'') tys
      else if \<not> isTypeFlagSet ty (TypeFlags_Void OR TypeFlags_Undefined) then None
      else isBooleanUndefined_loop isTruthy tys)"

definition isBooleanUndefined :: "tstype \<Rightarrow> bool option" where
  "isBooleanUndefined type = isBooleanUndefined_loop False (types type)"

text \<open>
  \<open>handleUnion\<close>: the boolean-or-undefined test when the option is set, then the loop
  that returns the first member's failure.
\<close>

fun handleUnion_loop :: "tstype list \<Rightarrow> options \<Rightarrow> TypeFailure option" where
  "handleUnion_loop [] opts = None"
| "handleUnion_loop (ty # tys) opts =
     (case failureForKind (getKind ty) True opts of
        Some failure \<Rightarrow> Some failure
      | None \<Rightarrow> handleUnion_loop tys opts)"

definition handleUnion :: "tstype \<Rightarrow> options \<Rightarrow> TypeFailure option" where
  "handleUnion type opts =
     (case (if allowBooleanOrUndefined opts then isBooleanUndefined type else None) of
        Some True \<Rightarrow> None
      | Some False \<Rightarrow> Some AlwaysFalsy
      | None \<Rightarrow> handleUnion_loop (types type) opts)"

definition getTypeFailure :: "tstype \<Rightarrow> options \<Rightarrow> TypeFailure option" where
  "getTypeFailure type opts =
     (if isUnionType type then handleUnion type opts
      else
        let kind = getKind type in
        case failureForKind kind False opts of
          Some failure \<Rightarrow> Some failure
        | None \<Rightarrow>
            (case triState kind of
               Some True \<Rightarrow>
                 (if isTypeFlagSet type (TypeFlags_Any OR TypeFlags_BooleanLiteral) then None
                  else Some AlwaysTruthy)
             | Some False \<Rightarrow>
                 (if isTypeFlagSet type TypeFlags_BooleanLiteral then None else Some AlwaysFalsy)
             | None \<Rightarrow> None))"

section \<open>The syntax tree and the context locator\<close>

text \<open>
  The operator kinds the rule tests; every other member of \<open>ts.SyntaxKind\<close> that can
  stand as an operator is \<open>OtherToken\<close>.
\<close>

datatype SyntaxKind = ExclamationToken | AmpersandAmpersandToken | BarBarToken | OtherToken nat

text \<open>
  A node of the TypeScript tree: one constructor for each node kind that the rule's
  \<open>switch\<close> statements name, with the fields the rule reads, and \<open>OtherNode\<close> with its
  children for every other kind (the source file itself, blocks, identifiers, calls ...).
  The fields are in the order in which \<open>ts.forEachChild\<close> visits them; an absent
  \<open>else\<close> branch or \<open>for\<close> clause is \<open>None\<close>.
\<close>

datatype node =
    PrefixUnaryExpression SyntaxKind node
  | IfStatement node node "node option"
  | WhileStatement node node
  | DoStatement node node
  | ConditionalExpression node node node
  | ForStatement "node option" "node option" "node option" node
  | BinaryExpression node SyntaxKind node
  | OtherNode "node list"

definition present :: "'a option \<Rightarrow> 'a list" where
  "present x = (case x of None \<Rightarrow> [] | Some y \<Rightarrow> [y])"

text \<open>
  The children \<open>ts.forEachChild\<close> visits, in its order.  Operator and punctuation tokens
  are left out: they are leaves on which the callback does nothing.
\<close>

fun children :: "node \<Rightarrow> node list" where
  "children (PrefixUnaryExpression operator operand) = [operand]"
| "children (IfStatement expression thenStatement elseStatement) =
     [expression, thenStatement] @ present elseStatement"
| "children (WhileStatement expression statement) = [expression, statement]"
| "children (DoStatement statement expression) = [statement, expression]"
| "children (ConditionalExpression condition whenTrue whenFalse) = [condition, whenTrue, whenFalse]"
| "children (ForStatement initializer condition incrementor statement) =
     present initializer @ present condition @ present incrementor @ [statement]"
| "children (BinaryExpression left operatorToken right) = [left, right]"
| "children (OtherNode nodes) = nodes"

text \<open>
  A node object is identified by its position: the child indices on the way from the
  source file down to it.  The type checker answers \<open>getTypeAtLocation\<close> per node object,
  and a diagnostic names the node object it is reported on.
\<close>

type_synonym path = "nat list"

fun nodeAt :: "node \<Rightarrow> path \<Rightarrow> node option" where
  "nodeAt n [] = Some n"
| "nodeAt n (i # p) = (if i < length (children n) then nodeAt (children n ! i) p else None)"

record report =
  report_node :: path
  message :: string

section \<open>The message formatter\<close>

definition binaryBooleanExpressionKind :: "node \<Rightarrow> string option" where
  "binaryBooleanExpressionKind n =
     (case n of
        BinaryExpression left operatorToken right \<Rightarrow>
          (case operatorToken of
             AmpersandAmpersandToken \<Rightarrow> Some ''&&''
           | BarBarToken \<Rightarrow> Some ''||''
           | _ \<Rightarrow> None)
      | _ \<Rightarrow> None)"

text \<open>
  A JavaScript template literal prints \<open>undefined\<close> as the word; \<open>None\<close> is the
  \<open>undefined\<close> a \<open>switch\<close> without a matching case returns.
\<close>

definition template :: "string option \<Rightarrow> string" where
  "template s = (case s of None \<Rightarrow> ''undefined'' | Some t \<Rightarrow> t)"

definition quoted :: "string \<Rightarrow> string" where
  "quoted s = [CHR 0x27] @ s @ [CHR 0x27]"

fun stringOr :: "string list \<Rightarrow> string" where
  "stringOr [p0] = p0"
| "stringOr [p0, p1] = p0 @ '' or '' @ p1"
| "stringOr parts =
     concat (map (\<lambda>p. p @ '', '') (butlast parts)) @ ''or '' @
       template (if parts = [] then None else Some (last parts))"

definition showLocation :: "node \<Rightarrow> string option" where
  "showLocation n =
     (case n of
        PrefixUnaryExpression operator operand \<Rightarrow> Some (''operand for the '' @ quoted ''!'' @ '' operator'')
      | ConditionalExpression condition whenTrue whenFalse \<Rightarrow> Some ''condition''
      | ForStatement initializer condition incrementor statement \<Rightarrow>
          Some (quoted ''for'' @ '' condition'')
      | IfStatement expression thenStatement elseStatement \<Rightarrow> Some (quoted ''if'' @ '' condition'')
      | WhileStatement expression statement \<Rightarrow> Some (quoted ''while'' @ '' condition'')
      | DoStatement statement expression \<Rightarrow> Some (quoted ''do-while'' @ '' condition'')
      | BinaryExpression left operatorToken right \<Rightarrow>
          Some (''operand for the '' @ quoted (template (binaryBooleanExpressionKind n)) @ '' operator'')
      | OtherNode nodes \<Rightarrow> None)"

definition showExpectedTypes :: "options \<Rightarrow> string list" where
  "showExpectedTypes opts =
     [''boolean'']
     @ (if allowNullUnion opts then [''null-union''] else [])
     @ (if allowUndefinedUnion opts then [''undefined-union''] else [])
     @ (if allowString opts then [''string''] else [])
     @ (if allowEnum opts then [''enum''] else [])
     @ (if allowNumber opts then [''number''] else [])
     @ (if allowBooleanOrUndefined opts then [''boolean-or-undefined''] else [])"

fun showTypeFailure :: "TypeFailure \<Rightarrow> bool \<Rightarrow> bool \<Rightarrow> string" where
  "showTypeFailure AlwaysTruthy unionType snc =
     (if snc then ''is always truthy''
      else ''is always truthy. It may be null/undefined, but neither '' @
           quoted OPTION_ALLOW_NULL_UNION @ '' nor '' @ quoted OPTION_ALLOW_UNDEFINED_UNION @
           '' is set'')"
| "showTypeFailure AlwaysFalsy unionType snc = ''is always falsy''"
| "showTypeFailure Fail_String unionType snc = (if unionType then ''could be'' else ''is'') @ '' a string''"
| "showTypeFailure Fail_Number unionType snc = (if unionType then ''could be'' else ''is'') @ '' a number''"
| "showTypeFailure Fail_Null unionType snc = (if unionType then ''could be'' else ''is'') @ '' null''"
| "showTypeFailure Fail_Undefined unionType snc =
     (if unionType then ''could be'' else ''is'') @ '' undefined''"
| "showTypeFailure Fail_Enum unionType snc = (if unionType then ''could be'' else ''is'') @ '' an enum''"
| "showTypeFailure Fail_Promise unionType snc = ''promise handled as boolean expression''"
| "showTypeFailure Mixes unionType snc = ''unions more than one truthy/falsy type''"

definition showFailure :: "node \<Rightarrow> TypeFailure \<Rightarrow> bool \<Rightarrow> options \<Rightarrow> string" where
  "showFailure location ty unionType opts =
     (let expectedTypes = showExpectedTypes opts;
          expected =
            (if length expectedTypes = 1 then ''Only '' @ hd expectedTypes @ ''s are allowed''
             else ''Allowed types are '' @ stringOr expectedTypes);
          tyFail = showTypeFailure ty unionType (strictNullChecks opts)
      in ''This type is not allowed in the '' @ template (showLocation location) @
         '' because it '' @ tyFail @ ''. '' @ expected @ ''.'')"

section \<open>The rule\<close>

text \<open>
  \<open>checkExpression(node, location)\<close>: the reports it adds, none or one.  The checked node
  is given by its path.
\<close>

definition checkExpression :: "options \<Rightarrow> (path \<Rightarrow> tstype) \<Rightarrow> path \<Rightarrow> node \<Rightarrow> report list" where
  "checkExpression opts checker nodePath location =
     (let type = checker nodePath in
      case getTypeFailure type opts of
        None \<Rightarrow> []
      | Some failure \<Rightarrow>
          if failure = AlwaysTruthy \<and> \<not> strictNullChecks opts \<and>
             (allowNullUnion opts \<or> allowUndefinedUnion opts)
          then []
          else [\<lparr> report_node = nodePath,
                  message = showFailure location failure (isUnionType type) opts \<rparr>])"

text \<open>
  The callback \<open>cb\<close> of \<open>walk\<close>: the \<open>switch\<close> on the node kind, then the descent into every
  child.  The callback always returns \<open>undefined\<close>, so \<open>ts.forEachChild\<close> never stops
  early.  \<open>p\<close> is the path of \<open>node\<close>.
\<close>

function cb :: "options \<Rightarrow> (path \<Rightarrow> tstype) \<Rightarrow> path \<Rightarrow> node \<Rightarrow> report list" where
  "cb opts checker p node =
     (case node of
        PrefixUnaryExpression operator operand \<Rightarrow>
          (if operator = ExclamationToken then checkExpression opts checker (p @ [0]) node else [])
      | IfStatement expression thenStatement elseStatement \<Rightarrow>
          checkExpression opts checker (p @ [0]) node
      | WhileStatement expression statement \<Rightarrow> checkExpression opts checker (p @ [0]) node
      | DoStatement statement expression \<Rightarrow> checkExpression opts checker (p @ [1]) node
      | ConditionalExpression condition whenTrue whenFalse \<Rightarrow>
          checkExpression opts checker (p @ [0]) node
      | ForStatement initializer condition incrementor statement \<Rightarrow>
          (case condition of
             Some c \<Rightarrow> checkExpression opts checker (p @ [length (present initializer)]) node
           | None \<Rightarrow> [])
      | _ \<Rightarrow> [])
     @ concat (map (\<lambda>i. cb opts checker (p @ [i]) (children node ! i)) [0..<length (children node)])"
  by pat_completeness auto
termination
proof (relation "measure (\<lambda>(opts, checker, p, node). size node)")
  fix opts :: options and checker :: "path \<Rightarrow> tstype" and p :: path and node :: node and i :: nat
  assume "i \<in> set [0..<length (children node)]"
  then have "children node ! i \<in> set (children node)"
    by simp
  then have "size (children node ! i) < size node"
    by (cases node)
       (auto simp: present_def less_Suc_eq_le size_list_estimation' split: option.splits)
  then show "((opts, checker, p @ [i], children node ! i), (opts, checker, p, node))
               \<in> measure (\<lambda>(opts, checker, p, node). size node)"
    by simp
qed simp

declare cb.simps [simp del]

text \<open>
  \<open>ts.forEachChild(node, cb)\<close> on the children \<open>cs\<close> of the node at path \<open>p\<close>; \<open>walk\<close> starts
  it on the source file.
\<close>

definition forEachChild_cb :: "options \<Rightarrow> (path \<Rightarrow> tstype) \<Rightarrow> path \<Rightarrow> node list \<Rightarrow> report list" where
  "forEachChild_cb opts checker p cs =
     concat (map (\<lambda>i. cb opts checker (p @ [i]) (cs ! i)) [0..<length cs])"

definition walk :: "options \<Rightarrow> (path \<Rightarrow> tstype) \<Rightarrow> node \<Rightarrow> report list" where
  "walk opts checker sourceFile = forEachChild_cb opts checker [] (children sourceFile)"

text \<open>
  What \<open>create\<close> reads of its context: the first element of \<open>context.options\<close> when it is
  there, and the program of the parser services, with its compiler option
  \<open>strictNullChecks\<close> and its type checker.
\<close>

record program =
  compilerOptions_strictNullChecks :: bool
  getTypeAtLocation :: "path \<Rightarrow> tstype"

record ruleContext =
  context_options :: "string list option"
  parserServices_program :: program

text \<open>
  \<open>create(context)\<close> and the \<open>Program\<close> handler it returns, applied to the source file: the
  diagnostics reported, in order.
\<close>

definition create :: "ruleContext \<Rightarrow> node \<Rightarrow> report list" where
  "create ctx sourceFile =
     (let prog = parserServices_program ctx;
          rawOptions =
            (case context_options ctx of
               Some raw \<Rightarrow> raw
             | None \<Rightarrow> [''allow-null-union'', ''allow-undefined-union'', ''allow-boolean-or-undefined'']);
          opts = parseOptions rawOptions True;
          checker = getTypeAtLocation prog
      in walk opts checker sourceFile)"

section \<open>Sample types and source files\<close>

text \<open>
  Type objects as the TypeScript checker builds them, and a union over given members.
  The checker's \<open>boolean\<close> is itself the union of the literal types \<open>false\<close> and \<open>true\<close>,
  with the boolean flag next to the union flag.
\<close>

definition anyType :: tstype where
  "anyType = Type TypeFlags_Any None (Some ''any'') None []"
definition stringType :: tstype where
  "stringType = Type TypeFlags_String None (Some ''string'') None []"
definition numberType :: tstype where
  "numberType = Type TypeFlags_Number None (Some ''number'') None []"
definition trueType :: tstype where
  "trueType = Type TypeFlags_BooleanLiteral None (Some ''true'') None []"
definition falseType :: tstype where
  "falseType = Type TypeFlags_BooleanLiteral None (Some ''false'') None []"
definition booleanType :: tstype where
  "booleanType =
     Type (TypeFlags_Boolean OR TypeFlags_Union) None (Some ''boolean'') None [falseType, trueType]"
definition undefinedType :: tstype where
  "undefinedType = Type TypeFlags_Undefined None (Some ''undefined'') None []"
definition voidType :: tstype where
  "voidType = Type TypeFlags_Void None (Some ''void'') None []"
definition emptyStringLiteralType :: tstype where
  "emptyStringLiteralType = Type TypeFlags_StringLiteral None None (Some (StringValue [])) []"
definition zeroLiteralType :: tstype where
  "zeroLiteralType = Type TypeFlags_NumberLiteral None None (Some (NumberValue 0)) []"
definition promiseType :: tstype where
  "promiseType = Type TypeFlags_Object (Some ''Promise'') None None []"
definition someObjectType :: tstype where
  "someObjectType = Type TypeFlags_Object (Some ''SomeObject'') None None []"
definition unionOf :: "tstype list \<Rightarrow> tstype" where
  "unionOf members = Type TypeFlags_Union None None None members"

text \<open>
  The source file \<open>a && b;\<close>: an expression statement at path \<open>[0]\<close>, the binary expression
  at \<open>[0, 0]\<close>, \<open>a\<close> at \<open>[0, 0, 0]\<close> and \<open>b\<close> at \<open>[0, 0, 1]\<close>; and a checker for
  \<open>a: string\<close>, \<open>b: any\<close>.
\<close>

definition source_a_and_b :: node where
  "source_a_and_b =
     OtherNode [OtherNode [BinaryExpression (OtherNode []) AmpersandAmpersandToken (OtherNode [])]]"

definition checker_a_and_b :: "path \<Rightarrow> tstype" where
  "checker_a_and_b p =
     (if p = [0, 0, 0] then stringType else if p = [0, 0, 1] then anyType
      else unionOf [stringType, anyType])"

text \<open>The source file \<open>!a;\<close> with \<open>a: string\<close>; the operand is at \<open>[0, 0, 0]\<close>.\<close>

definition source_not_a :: node where
  "source_not_a = OtherNode [OtherNode [PrefixUnaryExpression ExclamationToken (OtherNode [])]]"

text \<open>The source file \<open>if (obj) {}\<close>; the condition is at \<open>[0, 0]\<close>.\<close>

definition source_if_obj :: node where
  "source_if_obj = OtherNode [IfStatement (OtherNode []) (OtherNode []) None]"

text \<open>Every name of the options schema, and \<open>allow-mix\<close>.\<close>

definition allOptionNames :: "string list" where
  "allOptionNames =
     [OPTION_ALLOW_NULL_UNION, OPTION_ALLOW_UNDEFINED_UNION, OPTION_ALLOW_STRING,
      OPTION_ALLOW_ENUM, OPTION_ALLOW_NUMBER, OPTION_ALLOW_MIX,
      OPTION_ALLOW_BOOLEAN_OR_UNDEFINED, OPTION_ALLOW_ANY_RHS]"

section \<open>Unfolding and evaluation rules\<close>

lemmas TypeFlags_defs =
  TypeFlags_Any_def TypeFlags_String_def TypeFlags_Number_def TypeFlags_Boolean_def
  TypeFlags_Enum_def TypeFlags_StringLiteral_def TypeFlags_NumberLiteral_def
  TypeFlags_BooleanLiteral_def TypeFlags_EnumLiteral_def TypeFlags_Void_def
  TypeFlags_Undefined_def TypeFlags_Null_def TypeFlags_Object_def TypeFlags_Union_def
  TypeFlags_TemplateLiteral_def TypeFlags_StringMapping_def TypeFlags_StringLike_def
  TypeFlags_NumberLike_def TypeFlags_EnumLike_def

lemmas OPTION_defs =
  OPTION_ALLOW_NULL_UNION_def OPTION_ALLOW_UNDEFINED_UNION_def OPTION_ALLOW_STRING_def
  OPTION_ALLOW_ENUM_def OPTION_ALLOW_NUMBER_def OPTION_ALLOW_MIX_def
  OPTION_ALLOW_BOOLEAN_OR_UNDEFINED_def OPTION_ALLOW_ANY_RHS_def

lemmas sample_defs =
  anyType_def stringType_def numberType_def booleanType_def trueType_def falseType_def
  undefinedType_def voidType_def emptyStringLiteralType_def zeroLiteralType_def
  promiseType_def someObjectType_def unionOf_def

text \<open>The callback on each node kind, for evaluation without unfolding the recursion blindly.\<close>

lemma cb_PrefixUnaryExpression:
  "cb opts checker p (PrefixUnaryExpression operator operand) =
     (if operator = ExclamationToken
      then checkExpression opts checker (p @ [0]) (PrefixUnaryExpression operator operand)
      else [])
     @ forEachChild_cb opts checker p [operand]"
  by (subst cb.simps) (simp add: forEachChild_cb_def)

lemma cb_IfStatement:
  "cb opts checker p (IfStatement e t el) =
     checkExpression opts checker (p @ [0]) (IfStatement e t el)
     @ forEachChild_cb opts checker p ([e, t] @ present el)"
  by (subst cb.simps) (simp add: forEachChild_cb_def)

lemma cb_WhileStatement:
  "cb opts checker p (WhileStatement e s) =
     checkExpression opts checker (p @ [0]) (WhileStatement e s)
     @ forEachChild_cb opts checker p [e, s]"
  by (subst cb.simps) (simp add: forEachChild_cb_def)

lemma cb_DoStatement:
  "cb opts checker p (DoStatement s e) =
     checkExpression opts checker (p @ [1]) (DoStatement s e)
     @ forEachChild_cb opts checker p [s, e]"
  by (subst cb.simps) (simp add: forEachChild_cb_def)

lemma cb_ConditionalExpression:
  "cb opts checker p (ConditionalExpression c t f) =
     checkExpression opts checker (p @ [0]) (ConditionalExpression c t f)
     @ forEachChild_cb opts checker p [c, t, f]"
  by (subst cb.simps) (simp add: forEachChild_cb_def)

lemma cb_ForStatement:
  "cb opts checker p (ForStatement i c inc s) =
     (case c of
        Some c' \<Rightarrow> checkExpression opts checker (p @ [length (present i)]) (ForStatement i c inc s)
      | None \<Rightarrow> [])
     @ forEachChild_cb opts checker p (present i @ present c @ present inc @ [s])"
  by (subst cb.simps) (simp add: forEachChild_cb_def)

lemma cb_BinaryExpression:
  "cb opts checker p (BinaryExpression l operatorToken r) = forEachChild_cb opts checker p [l, r]"
  by (subst cb.simps) (simp add: forEachChild_cb_def)

lemma cb_OtherNode:
  "cb opts checker p (OtherNode nodes) = forEachChild_cb opts checker p nodes"
  by (subst cb.simps) (simp add: forEachChild_cb_def)

lemmas cb_eval =
  cb_PrefixUnaryExpression cb_IfStatement cb_WhileStatement cb_DoStatement
  cb_ConditionalExpression cb_ForStatement cb_BinaryExpression cb_OtherNode

lemma forEachChild_cb_Nil: "forEachChild_cb opts checker p [] = []"
  by (simp add: forEachChild_cb_def)

lemma forEachChild_cb_Cons:
  "forEachChild_cb opts checker p (c # cs) =
     concat (map (\<lambda>i. cb opts checker (p @ [i]) ((c # cs) ! i)) [0..<Suc (length cs)])"
  by (simp add: forEachChild_cb_def)

lemmas rule_eval =
  cb_eval forEachChild_cb_Nil forEachChild_cb_Cons create_def walk_def parseOptions_def has_def
  OPTION_defs checkExpression_def getTypeFailure_def handleUnion_def isBooleanUndefined_def
  isUnionType_def isTypeFlagSet_def TypeFlags_defs getKind_def isObject_def showFailure_def
  showExpectedTypes_def showLocation_def quoted_def template_def present_def sample_defs

section \<open>Where the locator reports\<close>

lemma checkExpression_node:
  "r \<in> set (checkExpression opts checker q location) \<Longrightarrow> report_node r = q"
  by (auto simp: checkExpression_def Let_def split: option.splits if_splits)

lemma forEachChild_cb_member:
  "r \<in> set (forEachChild_cb opts checker p cs) \<Longrightarrow>
     \<exists>i < length cs. r \<in> set (cb opts checker (p @ [i]) (cs ! i))"
  by (auto simp: forEachChild_cb_def)

text \<open>
  Every report of the callback is on a child of some node below, and that node is not a
  binary expression: the \<open>switch\<close> has no case for one.
\<close>

lemma cb_report_location:
  "r \<in> set (cb opts checker p n) \<Longrightarrow>
     \<exists>q i loc. report_node r = p @ q @ [i] \<and> nodeAt n q = Some loc
       \<and> (\<forall>l t x. loc \<noteq> BinaryExpression l t x)"
proof (induction opts checker p n rule: cb.induct)
  case (1 opts checker p node)
  let ?own = "\<exists>i. report_node r = p @ [i] \<and> (\<forall>l t x. node \<noteq> BinaryExpression l t x)"
  have split: "?own \<or> r \<in> set (forEachChild_cb opts checker p (children node))"
    using "1.prems"
    by (subst (asm) cb.simps)
       (auto simp: forEachChild_cb_def dest!: checkExpression_node
             split: node.splits if_splits option.splits)
  show ?case
  proof (rule disjE [OF split])
    assume ?own
    then obtain i where "report_node r = p @ [] @ [i]" "nodeAt node [] = Some node"
      "\<forall>l t x. node \<noteq> BinaryExpression l t x" by auto
    then show ?thesis by blast
  next
    assume "r \<in> set (forEachChild_cb opts checker p (children node))"
    then obtain i where i: "i < length (children node)"
      and r: "r \<in> set (cb opts checker (p @ [i]) (children node ! i))"
      using forEachChild_cb_member by blast
    from i have "i \<in> set [0..<length (children node)]" by simp
    from "1.IH" [OF this r] obtain q j loc where
      "report_node r = (p @ [i]) @ q @ [j]" "nodeAt (children node ! i) q = Some loc"
      "\<forall>l t x. loc \<noteq> BinaryExpression l t x" by blast
    with i have "report_node r = p @ (i # q) @ [j]" "nodeAt node (i # q) = Some loc"
      "\<forall>l t x. loc \<noteq> BinaryExpression l t x" by simp_all
    then show ?thesis by blast
  qed
qed

lemma walk_report_location:
  assumes "r \<in> set (walk opts checker sourceFile)"
  shows "\<exists>q i loc. report_node r = q @ [i] \<and> nodeAt sourceFile q = Some loc
       \<and> (\<forall>l t x. loc \<noteq> BinaryExpression l t x)"
proof -
  from assms obtain i where i: "i < length (children sourceFile)"
    and r: "r \<in> set (cb opts checker [i] (children sourceFile ! i))"
    unfolding walk_def using forEachChild_cb_member [of r opts checker "[]"] by auto
  from cb_report_location [OF r] obtain q j loc where
    "report_node r = [i] @ q @ [j]" "nodeAt (children sourceFile ! i) q = Some loc"
    "\<forall>l t x. loc \<noteq> BinaryExpression l t x" by blast
  with i have "report_node r = (i # q) @ [j]" "nodeAt sourceFile (i # q) = Some loc"
    "\<forall>l t x. loc \<noteq> BinaryExpression l t x" by simp_all
  then show ?thesis by blast
qed

text \<open>
  C1.  The claim: the operands of \<open>&&\<close> and \<open>||\<close> are boolean-context sites, each passed to
  \<open>checkExpression\<close>.  The rule's description says so and \<open>showLocation\<close> has the phrase
  for it, but the \<open>switch\<close> of \<open>walk\<close> has no case for a binary expression.  On the source
  file \<open>a && b;\<close> with \<open>a: string\<close> and the default options the rule reports nothing, while
  on \<open>!a;\<close> the same operand is reported as a string.
\<close>

theorem C1_logical_operands_not_checked:
  "create \<lparr> context_options = None,
            parserServices_program =
              \<lparr> compilerOptions_strictNullChecks = True, getTypeAtLocation = checker_a_and_b \<rparr> \<rparr>
          source_a_and_b = []
   \<and> create \<lparr> context_options = None,
              parserServices_program =
                \<lparr> compilerOptions_strictNullChecks = True, getTypeAtLocation = checker_a_and_b \<rparr> \<rparr>
            source_not_a =
       [\<lparr> report_node = [0, 0, 0],
          message = ''This type is not allowed in the operand for the '' @ quoted ''!'' @
            '' operator because it is a string. Allowed types are boolean, null-union, '' @
            ''undefined-union, or boolean-or-undefined.'' \<rparr>]"
  by (simp add: rule_eval source_a_and_b_def source_not_a_def checker_a_and_b_def)

text \<open>
  C2.  The claim: \<open>strictNullChecks\<close> comes from the project's compiler configuration, and
  without it an always-truthy failure is suppressed when a null or undefined union is
  allowed.  \<open>checkExpression\<close> has that guard, but \<open>create\<close> passes the constant \<open>true\<close> to
  \<open>parseOptions\<close>: in a project without strict null checks, with \<open>allow-null-union\<close>, the
  condition of \<open>if (obj) {}\<close> of an object type is still reported as always truthy.
  The same walk under options resolved with \<open>strictNullChecks = false\<close> reports nothing.
\<close>

theorem C2_strictNullChecks_constant:
  "create \<lparr> context_options = Some [''allow-null-union''],
            parserServices_program =
              \<lparr> compilerOptions_strictNullChecks = False,
                getTypeAtLocation = (\<lambda>p. someObjectType) \<rparr> \<rparr>
          source_if_obj =
     [\<lparr> report_node = [0, 0],
        message = ''This type is not allowed in the '' @ quoted ''if'' @
          '' condition because it is always truthy. Allowed types are boolean or null-union.'' \<rparr>]
   \<and> walk (parseOptions [''allow-null-union''] False) (\<lambda>p. someObjectType) source_if_obj = []"
  by (simp add: rule_eval source_if_obj_def)

text \<open>
  C3.  With \<open>allowAnyRhs\<close> set, no diagnostic is reported on the right operand of a \<open>&&\<close> or
  \<open>||\<close> expression whose type is \<open>any\<close>, wherever the expression stands in the source file.
\<close>

theorem C3_any_rhs_not_reported:
  assumes "allowAnyRhs opts"
    and "nodeAt sourceFile p = Some (BinaryExpression left operatorToken right)"
    and "operatorToken = AmpersandAmpersandToken \<or> operatorToken = BarBarToken"
    and "isTypeFlagSet (checker (p @ [1])) TypeFlags_Any"
  shows "p @ [1] \<notin> set (map report_node (walk opts checker sourceFile))"
proof
  assume "p @ [1] \<in> set (map report_node (walk opts checker sourceFile))"
  then obtain r where r: "r \<in> set (walk opts checker sourceFile)" "report_node r = p @ [1]"
    by auto
  from walk_report_location [OF r(1)] obtain q i loc where
    q: "report_node r = q @ [i]" "nodeAt sourceFile q = Some loc"
    "\<forall>l t x. loc \<noteq> BinaryExpression l t x" by blast
  from q(1) r(2) have "q = p" by simp
  with q(2,3) assms(2) show False by auto
qed

theorem C3_any_rhs_not_reported_witness:
  "allowAnyRhs (parseOptions [''allow-any-rhs''] True)
   \<and> nodeAt source_a_and_b [0, 0] =
       Some (BinaryExpression (OtherNode []) AmpersandAmpersandToken (OtherNode []))
   \<and> isTypeFlagSet (checker_a_and_b ([0, 0] @ [1])) TypeFlags_Any
   \<and> [0, 0] @ [1] \<notin> set (map report_node
         (walk (parseOptions [''allow-any-rhs''] True) checker_a_and_b source_a_and_b))"
proof -
  have a: "allowAnyRhs (parseOptions [''allow-any-rhs''] True)"
    by (simp add: parseOptions_def has_def OPTION_defs)
  have b: "nodeAt source_a_and_b [0, 0] =
       Some (BinaryExpression (OtherNode []) AmpersandAmpersandToken (OtherNode []))"
    by (simp add: source_a_and_b_def)
  have c: "AmpersandAmpersandToken = AmpersandAmpersandToken \<or> AmpersandAmpersandToken = BarBarToken"
    by simp
  have d: "isTypeFlagSet (checker_a_and_b ([0, 0] @ [1])) TypeFlags_Any"
    by (simp add: checker_a_and_b_def anyType_def isTypeFlagSet_def TypeFlags_defs)
  from C3_any_rhs_not_reported [where checker = checker_a_and_b, OF a b c d] a b d
  show ?thesis by blast
qed

text \<open>
  C4, as claimed: \<open>getKind\<close> maps the empty-string literal type to \<open>FalseStringLiteral\<close> and
  the zero literal type to \<open>FalseNumberLiteral\<close>.  It does not: it never looks at a
  literal's value.
\<close>

theorem C4_literal_kinds_counterexample:
  "getKind emptyStringLiteralType \<noteq> Kind_FalseStringLiteral
   \<and> getKind zeroLiteralType \<noteq> Kind_FalseNumberLiteral"
  by (simp add: getKind_def isTypeFlagSet_def TypeFlags_defs sample_defs)

text \<open>
  C4, amended: \<open>getKind\<close> maps every string-like type to \<open>String\<close>, the empty-string
  literal type too, and every number-like type that is not string-like to \<open>Number\<close>, the
  zero literal type too; it returns neither \<open>FalseStringLiteral\<close> nor \<open>FalseNumberLiteral\<close>
  for any type.
\<close>

theorem C4_getKind_string_number:
  "(isTypeFlagSet t TypeFlags_StringLike \<longrightarrow> getKind t = Kind_String)
   \<and> (\<not> isTypeFlagSet t TypeFlags_StringLike \<and> isTypeFlagSet t TypeFlags_NumberLike
        \<longrightarrow> getKind t = Kind_Number)
   \<and> getKind t \<noteq> Kind_FalseStringLiteral \<and> getKind t \<noteq> Kind_FalseNumberLiteral"
  by (simp add: getKind_def)

theorem C4_getKind_string_number_witness:
  "isTypeFlagSet emptyStringLiteralType TypeFlags_StringLike
   \<and> getKind emptyStringLiteralType = Kind_String
   \<and> \<not> isTypeFlagSet zeroLiteralType TypeFlags_StringLike
   \<and> isTypeFlagSet zeroLiteralType TypeFlags_NumberLike
   \<and> getKind zeroLiteralType = Kind_Number"
  using C4_getKind_string_number [of emptyStringLiteralType]
    C4_getKind_string_number [of zeroLiteralType]
  by (simp add: isTypeFlagSet_def TypeFlags_defs sample_defs)

text \<open>
  C5, as claimed: for \<open>boolean | undefined\<close> with \<open>allow-boolean-or-undefined\<close> unset and
  the null-union and undefined-union exceptions in place the failure is \<open>Undefined\<close>.  It
  is not: an allowed undefined-union lets the \<open>undefined\<close> member pass.
\<close>

theorem C5_boolean_or_undefined_counterexample:
  "getTypeFailure (unionOf [undefinedType, falseType, trueType])
     (parseOptions [''allow-null-union'', ''allow-undefined-union''] True) \<noteq> Some Fail_Undefined"
  by (simp add: rule_eval)

text \<open>
  C5, amended: for \<open>boolean | undefined\<close>, the union of \<open>undefined\<close>, \<open>false\<close> and \<open>true\<close>:
  with \<open>allow-boolean-or-undefined\<close> alone there is no failure; with that option unset and
  the null-union and undefined-union exceptions in place there is no failure either; with
  no option at all the failure is \<open>Undefined\<close>.  The same holds for a union of a member that
  carries the boolean flag alone, the member the first branch of \<open>isBooleanUndefined\<close> tests
  for, and \<open>undefined\<close>.
\<close>

theorem C5_boolean_or_undefined:
  "getTypeFailure (unionOf [undefinedType, falseType, trueType])
     (parseOptions [''allow-boolean-or-undefined''] snc) = None
   \<and> getTypeFailure (unionOf [undefinedType, falseType, trueType])
     (parseOptions [''allow-null-union'', ''allow-undefined-union''] snc) = None
   \<and> getTypeFailure (unionOf [undefinedType, falseType, trueType])
     (parseOptions [] snc) = Some Fail_Undefined
   \<and> getTypeFailure (unionOf [Type TypeFlags_Boolean None (Some ''boolean'') None [], undefinedType])
     (parseOptions [''allow-boolean-or-undefined''] snc) = None
   \<and> getTypeFailure (unionOf [Type TypeFlags_Boolean None (Some ''boolean'') None [], undefinedType])
     (parseOptions [''allow-null-union'', ''allow-undefined-union''] snc) = None
   \<and> getTypeFailure (unionOf [Type TypeFlags_Boolean None (Some ''boolean'') None [], undefinedType])
     (parseOptions [] snc) = Some Fail_Undefined"
  by (simp add: rule_eval)

section \<open>The failure determiner\<close>

lemma failureForKind_not_Mixes: "failureForKind k u opts \<noteq> Some Mixes"
  by (cases k) simp_all

lemma handleUnion_loop_not_Mixes: "handleUnion_loop tys opts \<noteq> Some Mixes"
  by (induction tys) (auto simp: failureForKind_not_Mixes split: option.splits)

text \<open>
  C8.  A type classified \<open>Boolean\<close> has no failure, whatever the options: when it is not
  a union for \<open>isUnionType\<close>, and when it is the checker's plain \<open>boolean\<close>, which carries
  the union flag and the members \<open>false\<close> and \<open>true\<close> and so goes through \<open>handleUnion\<close>.
\<close>

theorem C8_boolean_never_fails:
  assumes "getKind T = Kind_Boolean"
    and "isUnionType T \<longrightarrow> types T = [falseType, trueType]"
  shows "getTypeFailure T opts = None"
proof (cases "isUnionType T")
  case False
  with assms(1) show ?thesis
    by (simp add: getTypeFailure_def)
next
  case True
  with assms(2) have members: "types T = [falseType, trueType]"
    by simp
  have special: "isBooleanUndefined T = Some True"
    by (simp add: isBooleanUndefined_def members falseType_def trueType_def isTypeFlagSet_def
        TypeFlags_defs)
  have kinds: "getKind falseType = Kind_FalseBooleanLiteral" "getKind trueType = Kind_AlwaysTruthy"
    by (simp_all add: getKind_def isObject_def falseType_def trueType_def isTypeFlagSet_def
        TypeFlags_defs)
  have generic: "handleUnion_loop (types T) opts = None"
    by (simp add: members kinds)
  have "handleUnion T opts = None"
    by (simp add: handleUnion_def special generic)
  with True show ?thesis
    by (simp add: getTypeFailure_def)
qed

theorem C8_boolean_never_fails_witness:
  "getKind booleanType = Kind_Boolean
   \<and> isUnionType booleanType
   \<and> types booleanType = [falseType, trueType]
   \<and> (\<forall>opts. getTypeFailure booleanType opts = None)"
proof -
  have a: "getKind booleanType = Kind_Boolean"
    by (simp add: getKind_def isTypeFlagSet_def TypeFlags_defs booleanType_def)
  have u: "isUnionType booleanType"
    by (simp add: isUnionType_def isTypeFlagSet_def TypeFlags_defs booleanType_def)
  have m: "types booleanType = [falseType, trueType]"
    by (simp add: booleanType_def)
  then have b: "isUnionType booleanType \<longrightarrow> types booleanType = [falseType, trueType]"
    by simp
  from C8_boolean_never_fails [OF a b] a u m show ?thesis by blast
qed

text \<open>
  C9.  The failure \<open>Mixes\<close> is returned by none of \<open>failureForKind\<close>, \<open>handleUnion\<close> and
  \<open>getTypeFailure\<close>, for any type and any options.
\<close>

theorem C9_Mixes_unreachable:
  "failureForKind k u opts \<noteq> Some Mixes \<and> handleUnion T opts \<noteq> Some Mixes
   \<and> getTypeFailure T opts \<noteq> Some Mixes"
  by (auto simp: getTypeFailure_def handleUnion_def Let_def failureForKind_not_Mixes
      handleUnion_loop_not_Mixes split: option.splits bool.splits)

lemma handleUnion_loop_find:
  "handleUnion_loop tys opts =
     (case find (\<lambda>ty. failureForKind (getKind ty) True opts \<noteq> None) tys of
        None \<Rightarrow> None
      | Some ty \<Rightarrow> failureForKind (getKind ty) True opts)"
  by (induction tys) (auto split: option.splits)

lemma handleUnion_generic:
  "\<not> (allowBooleanOrUndefined opts \<and> isBooleanUndefined U \<noteq> None) \<Longrightarrow>
     handleUnion U opts = handleUnion_loop (types U) opts"
  by (auto simp: handleUnion_def split: option.splits bool.splits)

lemma isBooleanUndefined_loop_swap:
  "isBooleanUndefined_loop acc [a, b] = None \<longleftrightarrow> isBooleanUndefined_loop acc' [b, a] = None"
  by simp

lemma isBooleanUndefined_loop_abort:
  "\<not> isTypeFlagSet T TypeFlags_Boolean \<Longrightarrow> \<not> isTypeFlagSet T TypeFlags_BooleanLiteral \<Longrightarrow>
   \<not> isTypeFlagSet T (TypeFlags_Void OR TypeFlags_Undefined) \<Longrightarrow>
   isBooleanUndefined_loop acc (pre @ T # post) = None"
  by (induction pre arbitrary: acc) simp_all

lemma handleUnion_loop_first:
  "\<forall>m \<in> set pre. failureForKind (getKind m) True opts = None \<Longrightarrow>
   handleUnion_loop (pre @ T # post) opts =
     (case failureForKind (getKind T) True opts of
        Some failure \<Rightarrow> Some failure | None \<Rightarrow> handleUnion_loop post opts)"
  by (induction pre) simp_all

lemma getKind_Promise_not_Boolean:
  "getKind T = Kind_Promise \<Longrightarrow> \<not> isTypeFlagSet T TypeFlags_Boolean"
  by (auto simp: getKind_def split: if_splits)

lemma isBooleanUndefined_loop_all_undefined:
  "\<forall>m \<in> set tys. getKind m = Kind_Undefined \<and> \<not> isTypeFlagSet m TypeFlags_BooleanLiteral \<Longrightarrow>
   isBooleanUndefined_loop acc tys = Some acc"
proof (induction tys arbitrary: acc)
  case Nil
  then show ?case by simp
next
  case (Cons m tys)
  then have k: "getKind m = Kind_Undefined" and l: "\<not> isTypeFlagSet m TypeFlags_BooleanLiteral"
    by simp_all
  from k have "\<not> isTypeFlagSet m TypeFlags_Boolean"
    and "isTypeFlagSet m (TypeFlags_Undefined OR TypeFlags_Void)"
    by (auto simp: getKind_def split: if_splits)
  then have "\<not> isTypeFlagSet m TypeFlags_Boolean"
    and "isTypeFlagSet m (TypeFlags_Void OR TypeFlags_Undefined)"
    by (simp_all add: or.commute)
  with l Cons show ?case by simp
qed

lemma handleUnion_loop_all_undefined:
  "\<forall>m \<in> set tys. getKind m = Kind_Undefined \<Longrightarrow> allowUndefinedUnion opts \<Longrightarrow>
   handleUnion_loop tys opts = None"
  by (induction tys) simp_all

text \<open>
  C6.  For a union type to which the boolean-or-undefined special case does not apply,
  the failure is that of the first member, in the order of \<open>types\<close>, whose kind fails
  with \<open>isInUnion = true\<close>, and there is none when no member fails.  In particular, for a
  union of two members that fail with \<open>fa\<close> and \<open>fb\<close>, the union reports \<open>fa\<close> and the
  union with the members swapped reports \<open>fb\<close>: a different failure when the two differ.
\<close>

theorem C6_first_failing_member:
  assumes "isUnionType U"
    and "\<not> (allowBooleanOrUndefined opts \<and> isBooleanUndefined U \<noteq> None)"
  shows "getTypeFailure U opts =
           (case find (\<lambda>ty. failureForKind (getKind ty) True opts \<noteq> None) (types U) of
              None \<Rightarrow> None
            | Some ty \<Rightarrow> failureForKind (getKind ty) True opts)
         \<and> (\<forall>a b fa fb.
               types U = [a, b] \<and> failureForKind (getKind a) True opts = Some fa
               \<and> failureForKind (getKind b) True opts = Some fb
               \<longrightarrow> getTypeFailure U opts = Some fa
                 \<and> getTypeFailure
                      (Type (flags U) (symbolName U) (intrinsicName U) (litValue U) [b, a]) opts
                    = Some fb
                 \<and> (fa \<noteq> fb \<longrightarrow>
                      getTypeFailure U opts \<noteq>
                      getTypeFailure
                        (Type (flags U) (symbolName U) (intrinsicName U) (litValue U) [b, a]) opts))"
proof (intro conjI allI impI)
  have gen: "getTypeFailure U opts = handleUnion_loop (types U) opts"
    using assms by (simp add: getTypeFailure_def handleUnion_generic)
  then show "getTypeFailure U opts =
           (case find (\<lambda>ty. failureForKind (getKind ty) True opts \<noteq> None) (types U) of
              None \<Rightarrow> None
            | Some ty \<Rightarrow> failureForKind (getKind ty) True opts)"
    by (simp add: handleUnion_loop_find)
  fix a b fa fb
  assume h: "types U = [a, b] \<and> failureForKind (getKind a) True opts = Some fa
               \<and> failureForKind (getKind b) True opts = Some fb"
  let ?U' = "Type (flags U) (symbolName U) (intrinsicName U) (litValue U) [b, a]"
  from gen h show "getTypeFailure U opts = Some fa" by simp
  have u: "isUnionType ?U'"
    using assms(1) by (simp add: isUnionType_def isTypeFlagSet_def)
  have "\<not> (allowBooleanOrUndefined opts \<and> isBooleanUndefined ?U' \<noteq> None)"
    using assms(2) h isBooleanUndefined_loop_swap [of False a b False]
    by (simp only: isBooleanUndefined_def tstype.sel) blast
  then have "handleUnion ?U' opts = handleUnion_loop [b, a] opts"
    by (simp add: handleUnion_generic)
  with u h show fb: "getTypeFailure ?U' opts = Some fb"
    by (simp add: getTypeFailure_def)
  from gen h have "getTypeFailure U opts = Some fa" by simp
  with fb show "getTypeFailure U opts \<noteq> getTypeFailure ?U' opts" if "fa \<noteq> fb"
    using that by simp
qed

theorem C6_first_failing_member_witness:
  "isUnionType (unionOf [stringType, numberType])
   \<and> \<not> (allowBooleanOrUndefined (parseOptions [] True)
          \<and> isBooleanUndefined (unionOf [stringType, numberType]) \<noteq> None)
   \<and> getTypeFailure (unionOf [stringType, numberType]) (parseOptions [] True) = Some Fail_String
   \<and> getTypeFailure (unionOf [numberType, stringType]) (parseOptions [] True) = Some Fail_Number
   \<and> getTypeFailure (unionOf [stringType, numberType]) (parseOptions [] True)
       \<noteq> getTypeFailure (unionOf [numberType, stringType]) (parseOptions [] True)"
proof -
  let ?U = "unionOf [stringType, numberType]" and ?opts = "parseOptions [] True"
  have a: "isUnionType ?U"
    by (simp add: isUnionType_def isTypeFlagSet_def TypeFlags_defs unionOf_def)
  have b: "\<not> (allowBooleanOrUndefined ?opts \<and> isBooleanUndefined ?U \<noteq> None)"
    by (simp add: parseOptions_def has_def)
  have c: "types ?U = [stringType, numberType]
           \<and> failureForKind (getKind stringType) True ?opts = Some Fail_String
           \<and> failureForKind (getKind numberType) True ?opts = Some Fail_Number"
    by (simp add: rule_eval)
  note th = C6_first_failing_member [OF a b]
  from th [THEN conjunct2, THEN spec, THEN spec, THEN spec, THEN spec, THEN mp, OF c]
  have "getTypeFailure ?U ?opts = Some Fail_String
        \<and> getTypeFailure (unionOf [numberType, stringType]) ?opts = Some Fail_Number
        \<and> getTypeFailure ?U ?opts \<noteq> getTypeFailure (unionOf [numberType, stringType]) ?opts"
    by (simp add: unionOf_def)
  with a b show ?thesis by blast
qed

text \<open>
  C7.  The kind \<open>Promise\<close> fails with \<open>Promise\<close> under every options value, in a union or
  not.  So a type that is not a union and has that kind fails with \<open>Promise\<close>, and
  \<open>checkExpression\<close> reports it; and a union fails with \<open>Promise\<close> when a member has that
  kind (and none of the boolean-literal, void and undefined flags) and no member before
  it fails.
\<close>

theorem C7_promise_always_fails:
  "failureForKind Kind_Promise isInUnion opts = Some Fail_Promise
   \<and> (\<not> isUnionType T \<and> getKind T = Kind_Promise \<longrightarrow> getTypeFailure T opts = Some Fail_Promise)
   \<and> (\<not> isUnionType (checker q) \<and> getKind (checker q) = Kind_Promise \<longrightarrow>
        checkExpression opts checker q location =
          [\<lparr> report_node = q, message = showFailure location Fail_Promise False opts \<rparr>])
   \<and> (isUnionType U \<and> types U = pre @ T # post \<and> getKind T = Kind_Promise
        \<and> \<not> isTypeFlagSet T TypeFlags_BooleanLiteral
        \<and> \<not> isTypeFlagSet T (TypeFlags_Void OR TypeFlags_Undefined)
        \<and> (\<forall>m \<in> set pre. failureForKind (getKind m) True opts = None)
        \<longrightarrow> getTypeFailure U opts = Some Fail_Promise)"
proof (intro conjI impI)
  show "failureForKind Kind_Promise isInUnion opts = Some Fail_Promise" by simp
  show "getTypeFailure T opts = Some Fail_Promise"
    if "\<not> isUnionType T \<and> getKind T = Kind_Promise"
    using that by (simp add: getTypeFailure_def)
  show "checkExpression opts checker q location =
          [\<lparr> report_node = q, message = showFailure location Fail_Promise False opts \<rparr>]"
    if "\<not> isUnionType (checker q) \<and> getKind (checker q) = Kind_Promise"
    using that by (simp add: checkExpression_def getTypeFailure_def)
  show "getTypeFailure U opts = Some Fail_Promise"
    if h: "isUnionType U \<and> types U = pre @ T # post \<and> getKind T = Kind_Promise
        \<and> \<not> isTypeFlagSet T TypeFlags_BooleanLiteral
        \<and> \<not> isTypeFlagSet T (TypeFlags_Void OR TypeFlags_Undefined)
        \<and> (\<forall>m \<in> set pre. failureForKind (getKind m) True opts = None)"
  proof -
    from h have "isBooleanUndefined U = None"
      by (simp add: isBooleanUndefined_def isBooleanUndefined_loop_abort getKind_Promise_not_Boolean)
    then have "handleUnion U opts = handleUnion_loop (pre @ T # post) opts"
      using h by (simp add: handleUnion_generic)
    also have "\<dots> = Some Fail_Promise"
      using h by (simp add: handleUnion_loop_first)
    finally show ?thesis using h by (simp add: getTypeFailure_def)
  qed
qed

theorem C7_promise_always_fails_witness:
  "\<not> isUnionType promiseType \<and> getKind promiseType = Kind_Promise
   \<and> getTypeFailure promiseType (parseOptions allOptionNames False) = Some Fail_Promise
   \<and> checkExpression (parseOptions allOptionNames False) (\<lambda>p. promiseType) [0, 0] source_if_obj =
       [\<lparr> report_node = [0, 0],
          message = showFailure source_if_obj Fail_Promise False (parseOptions allOptionNames False) \<rparr>]
   \<and> isUnionType (unionOf [falseType, trueType, promiseType])
   \<and> getTypeFailure (unionOf [falseType, trueType, promiseType])
         (parseOptions allOptionNames False)
       = Some Fail_Promise"
proof -
  let ?opts = "parseOptions allOptionNames False"
    and ?U = "unionOf [falseType, trueType, promiseType]"
  have a: "\<not> isUnionType promiseType \<and> getKind promiseType = Kind_Promise"
    by (simp add: rule_eval)
  have b: "\<not> isUnionType ((\<lambda>p::path. promiseType) [0, 0])
           \<and> getKind ((\<lambda>p::path. promiseType) [0, 0]) = Kind_Promise"
    using a by simp
  have u: "isUnionType ?U"
    by (simp add: rule_eval)
  have c: "isUnionType ?U \<and> types ?U = [falseType, trueType] @ promiseType # []
           \<and> getKind promiseType = Kind_Promise
           \<and> \<not> isTypeFlagSet promiseType TypeFlags_BooleanLiteral
           \<and> \<not> isTypeFlagSet promiseType (TypeFlags_Void OR TypeFlags_Undefined)
           \<and> (\<forall>m \<in> set [falseType, trueType]. failureForKind (getKind m) True ?opts = None)"
    by (simp add: rule_eval)
  note th = C7_promise_always_fails [of _ ?opts promiseType "\<lambda>p. promiseType" "[0, 0]"
      source_if_obj ?U "[falseType, trueType]" "[]"]
  from th [THEN conjunct2, THEN conjunct1, THEN mp, OF a]
    th [THEN conjunct2, THEN conjunct2, THEN conjunct1, THEN mp, OF b]
    th [THEN conjunct2, THEN conjunct2, THEN conjunct2, THEN mp, OF c] a u
  show ?thesis by blast
qed

text \<open>
  C10.  For a union whose members are all of kind \<open>Undefined\<close> (undefined or void) and
  none a boolean literal, and options with \<open>allowUndefinedUnion\<close> set: with
  \<open>allowBooleanOrUndefined\<close> set \<open>handleUnion\<close> returns \<open>AlwaysFalsy\<close>, with it unset it
  returns no failure.
\<close>

theorem C10_boolean_or_undefined_not_monotone:
  assumes "\<forall>m \<in> set (types U). getKind m = Kind_Undefined \<and> \<not> isTypeFlagSet m TypeFlags_BooleanLiteral"
    and "allowUndefinedUnion opts"
  shows "handleUnion U (opts\<lparr>allowBooleanOrUndefined := True\<rparr>) = Some AlwaysFalsy
         \<and> handleUnion U (opts\<lparr>allowBooleanOrUndefined := False\<rparr>) = None"
  using assms
  by (simp add: handleUnion_def isBooleanUndefined_def isBooleanUndefined_loop_all_undefined
      handleUnion_loop_all_undefined)

theorem C10_boolean_or_undefined_not_monotone_witness:
  "getKind undefinedType = Kind_Undefined
   \<and> \<not> isTypeFlagSet undefinedType TypeFlags_BooleanLiteral
   \<and> getKind voidType = Kind_Undefined
   \<and> \<not> isTypeFlagSet voidType TypeFlags_BooleanLiteral
   \<and> allowUndefinedUnion (parseOptions [''allow-undefined-union''] True)
   \<and> handleUnion (unionOf [undefinedType, voidType])
        ((parseOptions [''allow-undefined-union''] True)\<lparr>allowBooleanOrUndefined := True\<rparr>)
       = Some AlwaysFalsy
   \<and> handleUnion (unionOf [undefinedType, voidType])
        ((parseOptions [''allow-undefined-union''] True)\<lparr>allowBooleanOrUndefined := False\<rparr>)
       = None"
proof -
  let ?opts = "parseOptions [''allow-undefined-union''] True"
  have m: "getKind undefinedType = Kind_Undefined
           \<and> \<not> isTypeFlagSet undefinedType TypeFlags_BooleanLiteral
           \<and> getKind voidType = Kind_Undefined
           \<and> \<not> isTypeFlagSet voidType TypeFlags_BooleanLiteral"
    by (simp add: rule_eval)
  then have a: "\<forall>m \<in> set (types (unionOf [undefinedType, voidType])).
                  getKind m = Kind_Undefined \<and> \<not> isTypeFlagSet m TypeFlags_BooleanLiteral"
    by (simp add: unionOf_def)
  have b: "allowUndefinedUnion ?opts"
    by (simp add: parseOptions_def has_def OPTION_defs)
  from C10_boolean_or_undefined_not_monotone [OF a b] m b show ?thesis by blast
qed

end
